theory Spec2Isabelle
  imports Complex_Main
begin

section \<open>JavaScript values of the upstream payload\<close>

text \<open>
  The numeric fields of the chart payload are JSON numbers, \<open>null\<close>, or absent
  (\<open>undefined\<close> when read). A number is an IEEE double: \<open>NaN\<close>, the two infinities, or a
  finite value, taken here as the real number it denotes. Arithmetic on finite values is
  exact (rounding and overflow are left out) and the two zeros are one value; the special
  values follow ECMAScript.
\<close>

datatype jsnum = NaN | PosInf | NegInf | Fin real

datatype jsval = Undefined | Null | Num jsnum

text \<open>\<open>ToBoolean\<close>: \<open>undefined\<close>, \<open>null\<close>, \<open>0\<close> and \<open>NaN\<close> are falsy.\<close>

fun truthy :: "jsval \<Rightarrow> bool" where
  "truthy (Num (Fin r)) = (r \<noteq> 0)"
| "truthy (Num NaN) = False"
| "truthy (Num PosInf) = True"
| "truthy (Num NegInf) = True"
| "truthy Undefined = False"
| "truthy Null = False"

text \<open>\<open>a || b\<close>\<close>

definition js_or :: "jsval \<Rightarrow> jsval \<Rightarrow> jsval" where
  "js_or a b = (if truthy a then a else b)"

text \<open>\<open>ToNumber\<close>\<close>

fun toNumber :: "jsval \<Rightarrow> jsnum" where
  "toNumber Undefined = NaN"
| "toNumber Null = Fin 0"
| "toNumber (Num n) = n"

fun num_sub :: "jsnum \<Rightarrow> jsnum \<Rightarrow> jsnum" where
  "num_sub NaN _ = NaN"
| "num_sub _ NaN = NaN"
| "num_sub (Fin a) (Fin b) = Fin (a - b)"
| "num_sub PosInf PosInf = NaN"
| "num_sub NegInf NegInf = NaN"
| "num_sub PosInf _ = PosInf"
| "num_sub NegInf _ = NegInf"
| "num_sub (Fin a) PosInf = NegInf"
| "num_sub (Fin a) NegInf = PosInf"

fun num_div :: "jsnum \<Rightarrow> jsnum \<Rightarrow> jsnum" where
  "num_div NaN _ = NaN"
| "num_div _ NaN = NaN"
| "num_div (Fin a) (Fin b) =
     (if b = 0 then (if a = 0 then NaN else if 0 < a then PosInf else NegInf)
      else Fin (a / b))"
| "num_div (Fin a) _ = Fin 0"
| "num_div PosInf (Fin b) = (if 0 \<le> b then PosInf else NegInf)"
| "num_div NegInf (Fin b) = (if 0 \<le> b then NegInf else PosInf)"
| "num_div _ _ = NaN"

fun num_mul :: "jsnum \<Rightarrow> jsnum \<Rightarrow> jsnum" where
  "num_mul NaN _ = NaN"
| "num_mul _ NaN = NaN"
| "num_mul (Fin a) (Fin b) = Fin (a * b)"
| "num_mul (Fin a) PosInf = (if a = 0 then NaN else if 0 < a then PosInf else NegInf)"
| "num_mul (Fin a) NegInf = (if a = 0 then NaN else if 0 < a then NegInf else PosInf)"
| "num_mul PosInf (Fin b) = (if b = 0 then NaN else if 0 < b then PosInf else NegInf)"
| "num_mul NegInf (Fin b) = (if b = 0 then NaN else if 0 < b then NegInf else PosInf)"
| "num_mul PosInf PosInf = PosInf"
| "num_mul NegInf NegInf = PosInf"
| "num_mul _ _ = NegInf"

fun num_ge :: "jsnum \<Rightarrow> jsnum \<Rightarrow> bool" where
  "num_ge NaN _ = False"
| "num_ge _ NaN = False"
| "num_ge PosInf _ = True"
| "num_ge _ NegInf = True"
| "num_ge (Fin a) (Fin b) = (b \<le> a)"
| "num_ge _ _ = False"

text \<open>\<open>a - b\<close> and \<open>a >= b\<close> on values: both operands go through \<open>ToNumber\<close>.\<close>

definition js_sub :: "jsval \<Rightarrow> jsval \<Rightarrow> jsnum" where
  "js_sub a b = num_sub (toNumber a) (toNumber b)"

definition js_ge :: "jsval \<Rightarrow> jsval \<Rightarrow> bool" where
  "js_ge a b = num_ge (toNumber a) (toNumber b)"

text \<open>\<open>Math.max(...xs)\<close> and \<open>Math.min(...xs)\<close>: \<open>-Infinity\<close> and \<open>Infinity\<close> on no argument.\<close>

definition num_max :: "jsnum \<Rightarrow> jsnum \<Rightarrow> jsnum" where
  "num_max a b = (if a = NaN \<or> b = NaN then NaN else if num_ge a b then a else b)"

definition num_min :: "jsnum \<Rightarrow> jsnum \<Rightarrow> jsnum" where
  "num_min a b = (if a = NaN \<or> b = NaN then NaN else if num_ge a b then b else a)"

definition Math_max :: "jsval list \<Rightarrow> jsnum" where
  "Math_max xs = foldr (\<lambda>x m. num_max (toNumber x) m) xs NegInf"

definition Math_min :: "jsval list \<Rightarrow> jsnum" where
  "Math_min xs = foldr (\<lambda>x m. num_min (toNumber x) m) xs PosInf"

text \<open>\<open>xs.find(Boolean)\<close>: the first truthy element, \<open>undefined\<close> when there is none.\<close>

definition find_Boolean :: "jsval list \<Rightarrow> jsval" where
  "find_Boolean xs = (case filter truthy xs of [] \<Rightarrow> Undefined | x # _ \<Rightarrow> x)"

text \<open>\<open>xs[i]\<close>: \<open>undefined\<close> past the end.\<close>

definition js_nth :: "jsval list \<Rightarrow> nat \<Rightarrow> jsval" where
  "js_nth xs i = (if i < length xs then xs ! i else Undefined)"

text \<open>A string variable that starts as \<open>null\<close>: falsy when \<open>null\<close> or empty.\<close>

definition truthy_str :: "string option \<Rightarrow> bool" where
  "truthy_str v = (case v of None \<Rightarrow> False | Some t \<Rightarrow> t \<noteq> [])"

text \<open>Decimal rendering of a status code inside a template literal.\<close>

function string_of_nat :: "nat \<Rightarrow> string" where
  "string_of_nat n =
     (if n < 10 then [''0123456789'' ! n]
      else string_of_nat (n div 10) @ [''0123456789'' ! (n mod 10)])"
  by pat_completeness auto
termination
  by (relation "measure id") auto

declare string_of_nat.simps [simp del]

text \<open>\<open>xs.join(sep)\<close>\<close>

fun join :: "string \<Rightarrow> string list \<Rightarrow> string" where
  "join sep [] = []"
| "join sep [x] = x"
| "join sep (x # y # ys) = x @ sep @ join sep (y # ys)"

section \<open>The chart payload\<close>

text \<open>
  The part of \<open>json.chart.result[0]\<close> that the code reads: \<open>meta\<close>, the first element of
  \<open>indicators.quote\<close>, and \<open>timestamp\<close>. An array-valued field that is absent or \<open>null\<close> is
  \<open>None\<close>.
\<close>

record meta =
  chartPreviousClose :: jsval
  previousClose :: jsval
  regularMarketPrice :: jsval
  regularMarketDayHigh :: jsval
  regularMarketDayLow :: jsval

record quote =
  high :: "jsval list option"
  low :: "jsval list option"
  open' :: "jsval list option"
  close :: "jsval list option"

record chartResult =
  meta :: meta
  quote :: quote
  timestamp :: "jsval list option"

section \<open>Records produced\<close>

record point =
  time :: jsval
  price :: jsval

text \<open>
  The Quote Record. \<open>timestamp\<close> is the value of \<open>new Date()\<close> in epoch milliseconds; its
  rendering by \<open>toISOString\<close> is left out.
\<close>

record quoteRecord =
  price :: jsval
  change :: jsnum
  changePercent :: jsnum
  high :: jsval
  low :: jsval
  open' :: jsval
  previousClose :: jsval
  isUp :: bool
  timestamp :: nat

text \<open>Lines 64 to 76 of \<open>fetchQuote\<close>: the record built from a parsed payload.\<close>

definition prevClose :: "meta \<Rightarrow> jsval" where
  "prevClose m =
     js_or (js_or (meta.chartPreviousClose m) (meta.previousClose m)) (meta.regularMarketPrice m)"

definition buildQuote :: "chartResult \<Rightarrow> nat \<Rightarrow> quoteRecord" where
  "buildQuote result now =
     (let m = chartResult.meta result; q = chartResult.quote result; pc = prevClose m in
      \<lparr> price = meta.regularMarketPrice m,
        change = js_sub (meta.regularMarketPrice m) pc,
        changePercent =
          num_mul (num_div (js_sub (meta.regularMarketPrice m) pc) (toNumber pc)) (Fin 100),
        high = js_or (meta.regularMarketDayHigh m)
                 (case quote.high q of
                    Some hs \<Rightarrow> Num (Math_max (filter truthy hs))
                  | None \<Rightarrow> meta.regularMarketPrice m),
        low = js_or (meta.regularMarketDayLow m)
                (case quote.low q of
                   Some ls \<Rightarrow> Num (Math_min (filter truthy ls))
                 | None \<Rightarrow> meta.regularMarketPrice m),
        open' = (case quote.open' q of
                   Some os \<Rightarrow> find_Boolean os
                 | None \<Rightarrow> meta.regularMarketPrice m),
        previousClose = pc,
        isUp = js_ge (meta.regularMarketPrice m) pc,
        timestamp = now \<rparr>)"

section \<open>The upstream and the process state\<close>

text \<open>
  A request to the upstream is one of the three \<open>fetch\<close> calls of the source, with the
  values it puts into the URL and the \<open>Cookie\<close> header (URL escaping is left to the
  transport).
\<close>

datatype request =
    Consent
  | GetCrumb string
  | Chart string string string "string option" "string option"

text \<open>
  A response as far as the code reads it: the status, the \<open>Set-Cookie\<close> values
  (\<open>None\<close> when the runtime's headers have no \<open>getSetCookie\<close>), the result of \<open>text()\<close>,
  and the result of \<open>json()\<close> followed by the reads down to \<open>chart.result[0]\<close>, its
  \<open>meta\<close> and \<open>indicators.quote[0]\<close>. \<open>Inl msg\<close> is a rejection or a thrown
  \<open>TypeError\<close> with that message.
\<close>

record response =
  status :: nat
  getSetCookie :: "string list option"
  text' :: "string + string"
  json :: "string + chartResult"

definition ok :: "response \<Rightarrow> bool" where
  "ok r = (200 \<le> status r \<and> status r \<le> 299)"

text \<open>\<open>await fetch(...)\<close> either rejects with an error message or yields a response.\<close>

datatype outcome = Rejected string | Responded response

text \<open>
  The upstream answers the \<open>n\<close>-th request the process sends (counted from 0) with an
  outcome, after some milliseconds.
\<close>

type_synonym upstream = "nat \<Rightarrow> request \<Rightarrow> nat \<times> outcome"

text \<open>A thrown \<open>Error\<close>; the handlers read only its \<open>message\<close>.\<close>

datatype exn = Error string

fun message :: "exn \<Rightarrow> string" where
  "message (Error m) = m"

text \<open>What the cache holds and the routes send: a Quote Record or a history sequence.\<close>

datatype payload = Quote quoteRecord | History "point list"

text \<open>
  The module state: the two token variables, the cache, the wall clock (\<open>Date.now()\<close>), and
  the requests sent so far, oldest first. Console output is left out.
\<close>

record state =
  crumb :: "string option"
  cookieStr :: "string option"
  cache :: "string \<rightharpoonup> payload \<times> nat"
  clock :: nat
  sent :: "request list"

definition fetch :: "upstream \<Rightarrow> request \<Rightarrow> state \<Rightarrow> outcome \<times> state" where
  "fetch U req s =
     (let (dt, out) = U (length (sent s)) req
      in (out, s\<lparr>sent := sent s @ [req], clock := clock s + dt\<rparr>))"

section \<open>The cache\<close>

text \<open>
  Modelled from the spec: the \<open>node-cache\<close> package is not part of the sources. Its
  contract is \<open>get(key)\<close> and \<open>set(key, value, ttlSeconds)\<close> with a per-entry time to live,
  30 seconds unless the call gives one, and passive expiry checked on read. An entry
  carries its expiry time in milliseconds and is absent once the clock has passed it.
\<close>

definition stdTTL :: nat where
  "stdTTL = 30"

definition cache_get :: "(string \<rightharpoonup> payload \<times> nat) \<Rightarrow> nat \<Rightarrow> string \<Rightarrow> payload option" where
  "cache_get c now k =
     (case c k of
        None \<Rightarrow> None
      | Some (v, expiry) \<Rightarrow> if expiry < now then None else Some v)"

definition cache_set ::
  "(string \<rightharpoonup> payload \<times> nat) \<Rightarrow> nat \<Rightarrow> string \<Rightarrow> payload \<Rightarrow> nat \<Rightarrow> (string \<rightharpoonup> payload \<times> nat)" where
  "cache_set c now k v ttl = c(k \<mapsto> (v, now + ttl * 1000))"

section \<open>Token acquisition\<close>

text \<open>
  \<open>initCrumb\<close>, lines 18 to 37. Every failure inside the \<open>try\<close> is caught and turned into
  the result \<open>false\<close>. The body of the crumb response is read in the same step as the
  response arrives.
\<close>

definition cookieHeader :: "string list \<Rightarrow> string" where
  "cookieHeader setCookies = join ''; '' (map (takeWhile (\<lambda>c. c \<noteq> CHR '';'')) setCookies)"

definition initCrumb :: "upstream \<Rightarrow> state \<Rightarrow> bool \<times> state" where
  "initCrumb U s =
     (case fetch U Consent s of
        (Rejected e, s1) \<Rightarrow> (False, s1)
      | (Responded consentResp, s1) \<Rightarrow>
          (let setCookies = (case getSetCookie consentResp of Some cs \<Rightarrow> cs | None \<Rightarrow> []);
               c = cookieHeader setCookies;
               s2 = s1\<lparr>cookieStr := Some c\<rparr>
           in case fetch U (GetCrumb c) s2 of
                (Rejected e, s3) \<Rightarrow> (False, s3)
              | (Responded crumbResp, s3) \<Rightarrow>
                  if \<not> ok crumbResp then (False, s3)
                  else (case text' crumbResp of
                          Inl e \<Rightarrow> (False, s3)
                        | Inr t \<Rightarrow> (True, s3\<lparr>crumb := Some t\<rparr>))))"

section \<open>The quote fetcher\<close>

text \<open>
  \<open>fetchQuote\<close>, lines 40 to 77. The recursion of line 55 has no bound, so the function
  is partial: \<open>None\<close> is a call that never returns. A returned \<open>Inl\<close> is a thrown error.
\<close>

definition tokenMissing :: "state \<Rightarrow> bool" where
  "tokenMissing s = (\<not> truthy_str (crumb s) \<or> \<not> truthy_str (cookieStr s))"

definition quoteRequest :: "string \<Rightarrow> state \<Rightarrow> request" where
  "quoteRequest symbol s = Chart symbol ''1d'' ''1d'' (crumb s) (cookieStr s)"

partial_function (option) fetchQuote ::
  "upstream \<Rightarrow> string \<Rightarrow> state \<Rightarrow> ((exn + quoteRecord) \<times> state) option" where
  "fetchQuote U symbol s =
     (let (acquired, s1) = (if tokenMissing s then initCrumb U s else (True, s)) in
      if \<not> acquired then Some (Inl (Error ''Cannot acquire Yahoo Finance crumb''), s1)
      else
        (case fetch U (quoteRequest symbol s1) s1 of
           (Rejected e, s2) \<Rightarrow> Some (Inl (Error e), s2)
         | (Responded resp, s2) \<Rightarrow>
             if status resp = 401 \<or> status resp = 403
             then fetchQuote U symbol (snd (initCrumb U s2))
             else if \<not> ok resp
             then Some (Inl (Error (''Yahoo API error '' @ string_of_nat (status resp))), s2)
             else (case json resp of
                     Inl e \<Rightarrow> Some (Inl (Error e), s2)
                   | Inr result \<Rightarrow> Some (Inr (buildQuote result (clock s2)), s2))))"

section \<open>The history fetcher\<close>

text \<open>\<open>fetchHistory\<close>, lines 80 to 116. It has no retry, so it always returns.\<close>

definition cacheKey :: "string \<Rightarrow> string \<Rightarrow> string" where
  "cacheKey symbol range' = ''chart_'' @ symbol @ ''_'' @ range'"

definition intervalOf :: "string \<Rightarrow> string" where
  "intervalOf range' = (if range' = ''1d'' then ''5m'' else if range' = ''5d'' then ''15m'' else ''1d'')"

definition historyRequest :: "string \<Rightarrow> string \<Rightarrow> state \<Rightarrow> request" where
  "historyRequest symbol range' s = Chart symbol range' (intervalOf range') (crumb s) (cookieStr s)"

text \<open>Lines 105 and 106: \<open>result.timestamp || []\<close> and \<open>result.indicators.quote[0].close || []\<close>.\<close>

definition timestamps :: "chartResult \<Rightarrow> jsval list" where
  "timestamps result = (case chartResult.timestamp result of Some ts \<Rightarrow> ts | None \<Rightarrow> [])"

definition prices :: "chartResult \<Rightarrow> jsval list" where
  "prices result = (case quote.close (chartResult.quote result) of Some ps \<Rightarrow> ps | None \<Rightarrow> [])"

text \<open>Lines 109 to 112: \<open>timestamps.map((t, i) => ...).filter(h => h.price !== null)\<close>.\<close>

definition historyPoints :: "chartResult \<Rightarrow> point list" where
  "historyPoints result =
     filter (\<lambda>h. point.price h \<noteq> Null)
       (map (\<lambda>(i, t). \<lparr>point.time = t, point.price = js_nth (prices result) i\<rparr>)
          (enumerate 0 (timestamps result)))"

definition fetchHistory ::
  "upstream \<Rightarrow> string \<Rightarrow> string \<Rightarrow> state \<Rightarrow> (exn + payload) \<times> state" where
  "fetchHistory U symbol range' s =
     (case cache_get (cache s) (clock s) (cacheKey symbol range') of
        Some cached \<Rightarrow> (Inr cached, s)
      | None \<Rightarrow>
          (let (acquired, s1) = (if tokenMissing s then initCrumb U s else (True, s)) in
           if \<not> acquired then (Inl (Error ''Cannot acquire Yahoo Finance crumb''), s1)
           else
             (case fetch U (historyRequest symbol range' s1) s1 of
                (Rejected e, s2) \<Rightarrow> (Inl (Error e), s2)
              | (Responded resp, s2) \<Rightarrow>
                  if \<not> ok resp
                  then (Inl (Error (''Yahoo Chart API error '' @ string_of_nat (status resp))), s2)
                  else (case json resp of
                          Inl e \<Rightarrow> (Inl (Error e), s2)
                        | Inr result \<Rightarrow>
                            (let history = History (historyPoints result)
                             in (Inr history,
                                 s2\<lparr>cache :=
                                      cache_set (cache s2) (clock s2) (cacheKey symbol range')
                                        history 60\<rparr>))))))"

section \<open>The routes\<close>

text \<open>
  A JSON body sent by a route: one item, which is a payload or \<open>{error: message}\<close>, or the
  mapping of the batch route. An HTTP response is a status with a body.
\<close>

datatype item = Data payload | Failure string

datatype body = One item | Many "string \<rightharpoonup> item"

type_synonym http = "nat \<times> body"

text \<open>\<open>GET /api/quote/:symbol\<close>, lines 121 to 135.\<close>

definition quoteRoute :: "upstream \<Rightarrow> string \<Rightarrow> state \<Rightarrow> (http \<times> state) option" where
  "quoteRoute U symbol s =
     (case cache_get (cache s) (clock s) symbol of
        Some cached \<Rightarrow> Some ((200, One (Data cached)), s)
      | None \<Rightarrow>
          (case fetchQuote U symbol s of
             None \<Rightarrow> None
           | Some (Inr data, s1) \<Rightarrow>
               Some ((200, One (Data (Quote data))),
                     s1\<lparr>cache := cache_set (cache s1) (clock s1) symbol (Quote data) stdTTL\<rparr>)
           | Some (Inl e, s1) \<Rightarrow> Some ((500, One (Failure (message e))), s1)))"

text \<open>
  \<open>GET /api/history/:symbol\<close>, lines 172 to 183. The query parameter is a string or
  absent; \<open>range || '1d'\<close> replaces an absent or empty one.
\<close>

definition historyRoute :: "upstream \<Rightarrow> string \<Rightarrow> string option \<Rightarrow> state \<Rightarrow> http \<times> state" where
  "historyRoute U symbol range' s =
     (case fetchHistory U symbol
             (case range' of None \<Rightarrow> ''1d'' | Some r \<Rightarrow> if r = [] then ''1d'' else r) s of
        (Inr data, s1) \<Rightarrow> ((200, One (Data data)), s1)
      | (Inl e, s1) \<Rightarrow> ((500, One (Failure (message e))), s1))"

section \<open>The batch route\<close>

text \<open>
  \<open>POST /api/batch\<close>, lines 138 to 169. The value of \<open>req.body && req.body.symbols\<close> is
  missing (no body, or no such field), something that is not an array, or an array, whose
  elements are strings.
\<close>

datatype symbolsField = Missing | NotArray | Array "string list"

text \<open>
  \<open>results[symbol] = v\<close> on the plain object \<open>results\<close>: the key \<open>__proto__\<close> reaches the
  prototype setter and adds no own property, so \<open>res.json\<close> does not print it.
\<close>

definition results_set :: "(string \<rightharpoonup> item) \<Rightarrow> string \<Rightarrow> item \<Rightarrow> (string \<rightharpoonup> item)" where
  "results_set results symbol v =
     (if symbol = ''__proto__'' then results else results(symbol \<mapsto> v))"

text \<open>
  The per-symbol tasks run concurrently on one thread: a task runs until it awaits the
  outcome of a request, and the others run in between. A task is therefore modelled by
  the places where it waits: for the consent response (line 21) or the crumb response
  (line 26) of an \<open>initCrumb\<close> called from line 42 (\<open>Ensure\<close>) or from line 54
  (\<open>Refresh\<close>), or for the chart response (line 47). A waiting task holds the outcome
  of its request and the time at which it arrives.
\<close>

datatype caller = Ensure | Refresh

datatype wait = AwaitConsent caller | AwaitCrumb caller | AwaitChart

datatype task = Waiting wait nat outcome | Finished

text \<open>Sending a request without waiting for it: the clock moves when the outcome is delivered.\<close>

definition issue :: "upstream \<Rightarrow> request \<Rightarrow> state \<Rightarrow> (nat \<times> outcome) \<times> state" where
  "issue U req s =
     (let (dt, out) = U (length (sent s)) req
      in ((clock s + dt, out), s\<lparr>sent := sent s @ [req]\<rparr>))"

definition await ::
  "upstream \<Rightarrow> request \<Rightarrow> wait \<Rightarrow> state \<Rightarrow> (string \<rightharpoonup> item) \<Rightarrow> task \<times> state \<times> (string \<rightharpoonup> item)" where
  "await U req w s results =
     (let ((due, out), s1) = issue U req s in (Waiting w due out, s1, results))"

text \<open>Lines 155 to 161: \<open>fetchQuote\<close> has returned or thrown inside the task.\<close>

definition settle ::
  "string \<Rightarrow> exn + quoteRecord \<Rightarrow> state \<Rightarrow> (string \<rightharpoonup> item) \<Rightarrow> task \<times> state \<times> (string \<rightharpoonup> item)" where
  "settle symbol r s results =
     (case r of
        Inr data \<Rightarrow>
          (Finished,
           s\<lparr>cache := cache_set (cache s) (clock s) symbol (Quote data) stdTTL\<rparr>,
           results_set results symbol (Data (Quote data)))
      | Inl e \<Rightarrow> (Finished, s, results_set results symbol (Failure (message e))))"

text \<open>Lines 41 to 49: entering \<open>fetchQuote\<close>, up to its first await.\<close>

definition enter ::
  "upstream \<Rightarrow> string \<Rightarrow> state \<Rightarrow> (string \<rightharpoonup> item) \<Rightarrow> task \<times> state \<times> (string \<rightharpoonup> item)" where
  "enter U symbol s results =
     (if tokenMissing s then await U Consent (AwaitConsent Ensure) s results
      else await U (quoteRequest symbol s) AwaitChart s results)"

text \<open>\<open>initCrumb\<close> has returned to line 42 or to line 54.\<close>

definition afterInit ::
  "upstream \<Rightarrow> string \<Rightarrow> caller \<Rightarrow> bool \<Rightarrow> state \<Rightarrow> (string \<rightharpoonup> item) \<Rightarrow>
     task \<times> state \<times> (string \<rightharpoonup> item)" where
  "afterInit U symbol c acquired s results =
     (case c of
        Ensure \<Rightarrow>
          if \<not> acquired
          then settle symbol (Inl (Error ''Cannot acquire Yahoo Finance crumb'')) s results
          else await U (quoteRequest symbol s) AwaitChart s results
      | Refresh \<Rightarrow> enter U symbol s results)"

text \<open>A waiting task receives its outcome and runs to its next await or to its end.\<close>

fun resume ::
  "upstream \<Rightarrow> string \<Rightarrow> wait \<Rightarrow> outcome \<Rightarrow> state \<Rightarrow> (string \<rightharpoonup> item) \<Rightarrow>
     task \<times> state \<times> (string \<rightharpoonup> item)" where
  "resume U symbol (AwaitConsent c) out s results =
     (case out of
        Rejected e \<Rightarrow> afterInit U symbol c False s results
      | Responded consentResp \<Rightarrow>
          (let setCookies = (case getSetCookie consentResp of Some cs \<Rightarrow> cs | None \<Rightarrow> []);
               ck = cookieHeader setCookies
           in await U (GetCrumb ck) (AwaitCrumb c) (s\<lparr>cookieStr := Some ck\<rparr>) results))"
| "resume U symbol (AwaitCrumb c) out s results =
     (case out of
        Rejected e \<Rightarrow> afterInit U symbol c False s results
      | Responded crumbResp \<Rightarrow>
          if \<not> ok crumbResp then afterInit U symbol c False s results
          else (case text' crumbResp of
                  Inl e \<Rightarrow> afterInit U symbol c False s results
                | Inr t \<Rightarrow> afterInit U symbol c True (s\<lparr>crumb := Some t\<rparr>) results))"
| "resume U symbol AwaitChart out s results =
     (case out of
        Rejected e \<Rightarrow> settle symbol (Inl (Error e)) s results
      | Responded resp \<Rightarrow>
          if status resp = 401 \<or> status resp = 403
          then await U Consent (AwaitConsent Refresh) s results
          else if \<not> ok resp
          then settle symbol
                 (Inl (Error (''Yahoo API error '' @ string_of_nat (status resp)))) s results
          else (case json resp of
                  Inl e \<Rightarrow> settle symbol (Inl (Error e)) s results
                | Inr result \<Rightarrow> settle symbol (Inr (buildQuote result (clock s))) s results))"

text \<open>Lines 148 to 155: the start of a task, up to its first await.\<close>

definition start ::
  "upstream \<Rightarrow> string \<Rightarrow> state \<Rightarrow> (string \<rightharpoonup> item) \<Rightarrow> task \<times> state \<times> (string \<rightharpoonup> item)" where
  "start U symbol s results =
     (case cache_get (cache s) (clock s) symbol of
        Some cached \<Rightarrow> (Finished, s, results_set results symbol (Data cached))
      | None \<Rightarrow> enter U symbol s results)"

text \<open>
  The batch in flight: the module state, the \<open>results\<close> object and one task per element
  of \<open>symbols\<close>. \<open>symbols.map\<close> starts the tasks in order, each up to its first await.
  Then outcomes are delivered one at a time, in an order the program does not choose:
  a schedule names the task that receives its outcome next. Other requests to the server
  are not running meanwhile.
\<close>

record batch =
  shared :: state
  results :: "string \<rightharpoonup> item"
  tasks :: "(string \<times> task) list"

fun launch :: "upstream \<Rightarrow> string list \<Rightarrow> batch \<Rightarrow> batch" where
  "launch U [] b = b"
| "launch U (symbol # rest) b =
     (let (t, s1, r1) = start U symbol (shared b) (results b)
      in launch U rest (b\<lparr>shared := s1, results := r1, tasks := tasks b @ [(symbol, t)]\<rparr>))"

definition deliver :: "upstream \<Rightarrow> nat \<Rightarrow> batch \<Rightarrow> batch" where
  "deliver U i b =
     (if i < length (tasks b)
      then (case tasks b ! i of
              (symbol, Waiting w due out) \<Rightarrow>
                (let s1 = (shared b)\<lparr>clock := max (clock (shared b)) due\<rparr>;
                     (t, s2, r2) = resume U symbol w out s1 (results b)
                 in b\<lparr>shared := s2, results := r2, tasks := (tasks b)[i := (symbol, t)]\<rparr>)
            | (symbol, Finished) \<Rightarrow> b)
      else b)"

definition run :: "upstream \<Rightarrow> nat list \<Rightarrow> batch \<Rightarrow> batch" where
  "run U schedule b = foldl (\<lambda>b i. deliver U i b) b schedule"

definition allFinished :: "batch \<Rightarrow> bool" where
  "allFinished b = list_all (\<lambda>(symbol, t). t = Finished) (tasks b)"

text \<open>
  The handler. \<open>Promise.all\<close> resolves once every task has finished, and no task rejects
  (its whole body is inside \<open>try\<close>), so the \<open>catch\<close> of line 166 is never entered. After
  a schedule the handler has responded, or is still waiting (\<open>None\<close>).
\<close>

definition batchRoute ::
  "upstream \<Rightarrow> symbolsField \<Rightarrow> nat list \<Rightarrow> state \<Rightarrow> http option \<times> state" where
  "batchRoute U field schedule s =
     (case field of
        Array symbols \<Rightarrow>
          if symbols = []
          then (Some (400, One (Failure ''symbols must be a non-empty array'')), s)
          else (let b = run U schedule
                          (launch U symbols \<lparr>shared = s, results = Map.empty, tasks = []\<rparr>)
                in if allFinished b then (Some (200, Many (results b)), shared b)
                   else (None, shared b))
      | _ \<Rightarrow> (Some (400, One (Failure ''symbols must be a non-empty array'')), s))"

section \<open>Sample payloads, states and upstreams\<close>

definition sampleMeta :: meta where
  "sampleMeta =
     \<lparr> chartPreviousClose = Num (Fin 100), meta.previousClose = Undefined,
       regularMarketPrice = Num (Fin 110), regularMarketDayHigh = Num (Fin 112),
       regularMarketDayLow = Num (Fin 99) \<rparr>"

definition sampleQuote :: quote where
  "sampleQuote =
     \<lparr> quote.high = Some [Num (Fin 11), Null, Num (Fin 13)],
       quote.low = Some [Num (Fin 9), Null, Num (Fin 11)],
       quote.open' = Some [Null, Num (Fin 10)],
       close = Some [Num (Fin 10), Null, Num (Fin 12)] \<rparr>"

definition sampleResult :: chartResult where
  "sampleResult =
     \<lparr> meta = sampleMeta, quote = sampleQuote,
       chartResult.timestamp = Some [Num (Fin 1), Num (Fin 2), Num (Fin 3)] \<rparr>"

text \<open>A response with a status, \<open>Set-Cookie\<close> values, a text body and a chart payload.\<close>

definition respond :: "nat \<Rightarrow> string list \<Rightarrow> string \<Rightarrow> chartResult \<Rightarrow> nat \<times> outcome" where
  "respond st cookies t result =
     (5, Responded \<lparr>status = st, getSetCookie = Some cookies, text' = Inr t, json = Inr result\<rparr>)"

text \<open>A state with a token and an empty cache, and one with no token yet.\<close>

definition ready :: state where
  "ready = \<lparr>crumb = Some ''c0'', cookieStr = Some ''A=1'', cache = Map.empty, clock = 0, sent = []\<rparr>"

definition fresh :: state where
  "fresh = \<lparr>crumb = None, cookieStr = None, cache = Map.empty, clock = 0, sent = []\<rparr>"

text \<open>An upstream that serves every request, with a given chart payload.\<close>

definition serving :: "chartResult \<Rightarrow> upstream" where
  "serving result n req =
     (case req of
        Consent \<Rightarrow> respond 200 [''A=2; Path=/''] [] result
      | GetCrumb c \<Rightarrow> respond 200 [] ''c1'' result
      | Chart symbol range' interval cr ck \<Rightarrow> respond 200 [] [] result)"

text \<open>A payload whose chart previous close is zero, and one with no close at a zero price.\<close>

definition zeroCloseResult :: chartResult where
  "zeroCloseResult =
     sampleResult\<lparr>meta := sampleMeta\<lparr>chartPreviousClose := Num (Fin 0),
                                       meta.previousClose := Num (Fin 5),
                                       regularMarketPrice := Num (Fin 10)\<rparr>\<rparr>"

definition zeroPriceResult :: chartResult where
  "zeroPriceResult =
     sampleResult\<lparr>meta := sampleMeta\<lparr>chartPreviousClose := Undefined,
                                       meta.previousClose := Undefined,
                                       regularMarketPrice := Num (Fin 0)\<rparr>\<rparr>"

definition noCloseResult :: chartResult where
  "noCloseResult =
     sampleResult\<lparr>meta := sampleMeta\<lparr>chartPreviousClose := Undefined, meta.previousClose := Null\<rparr>\<rparr>"

text \<open>The outcome of the last request sent.\<close>

definition lastOutcome :: "upstream \<Rightarrow> state \<Rightarrow> outcome" where
  "lastOutcome U s = snd (U (length (sent s) - 1) (last (sent s)))"

text \<open>An upstream that hands out a cookie and then refuses the crumb.\<close>

definition crumbDenied :: upstream where
  "crumbDenied n req =
     (case req of
        Consent \<Rightarrow> respond 200 [''B=9; Path=/'', ''C=3''] [] sampleResult
      | GetCrumb c \<Rightarrow> respond 429 [] ''Too Many Requests'' sampleResult
      | Chart symbol range' interval cr ck \<Rightarrow> respond 200 [] [] sampleResult)"

text \<open>
  A payload whose close array is shorter than its timestamp array, and the payload of the
  spec's history example.
\<close>

definition shortCloseResult :: chartResult where
  "shortCloseResult = sampleResult\<lparr>quote := sampleQuote\<lparr>close := Some [Num (Fin 10)]\<rparr>\<rparr>"

definition samplePoints :: "point list" where
  "samplePoints =
     [\<lparr>point.time = Num (Fin 1), point.price = Num (Fin 10)\<rparr>,
      \<lparr>point.time = Num (Fin 3), point.price = Num (Fin 12)\<rparr>]"

text \<open>
  States whose cache holds a live history entry: under the key the code uses, and under
  the key \<open>history:AAPL:1d\<close>.
\<close>

definition warm :: state where
  "warm = ready\<lparr>cache := [''chart_AAPL_1d'' \<mapsto> (History samplePoints, 60000)], clock := 100\<rparr>"

definition mislabelled :: state where
  "mislabelled = ready\<lparr>cache := [''history:AAPL:1d'' \<mapsto> (History [], 60000)], clock := 100\<rparr>"

text \<open>A state whose cache holds a live Quote Record for \<open>AAPL\<close>.\<close>

definition quoted :: state where
  "quoted = ready\<lparr>cache := [''AAPL'' \<mapsto> (Quote (buildQuote sampleResult 5), 30005)], clock := 100\<rparr>"

text \<open>
  Upstreams whose chart endpoint refuses the token: on the first request only, with a
  consent endpoint that sets no cookie; on every request, with working token endpoints;
  and on every request, with no cookie and a refused crumb.
\<close>

definition cookieless :: upstream where
  "cookieless n req =
     (case req of
        Consent \<Rightarrow> respond 200 [] [] sampleResult
      | GetCrumb c \<Rightarrow> respond 200 [] ''c1'' sampleResult
      | Chart symbol range' interval cr ck \<Rightarrow>
          if n = 0 then respond 401 [] [] sampleResult else respond 200 [] [] sampleResult)"

definition expired :: upstream where
  "expired n req =
     (case req of
        Consent \<Rightarrow> respond 200 [''A=2; Path=/''] [] sampleResult
      | GetCrumb c \<Rightarrow> respond 200 [] ''c1'' sampleResult
      | Chart symbol range' interval cr ck \<Rightarrow>
          if n = 0 then respond 401 [] [] sampleResult else respond 200 [] [] sampleResult)"

definition denied :: upstream where
  "denied n req =
     (case req of
        Consent \<Rightarrow> respond 200 [''A=2; Path=/''] [] sampleResult
      | GetCrumb c \<Rightarrow> respond 200 [] ''c1'' sampleResult
      | Chart symbol range' interval cr ck \<Rightarrow> respond 401 [] [] sampleResult)"

definition lockedOut :: upstream where
  "lockedOut n req =
     (case req of
        Consent \<Rightarrow> respond 200 [] [] sampleResult
      | GetCrumb c \<Rightarrow> respond 429 [] [] sampleResult
      | Chart symbol range' interval cr ck \<Rightarrow> respond 403 [] [] sampleResult)"

text \<open>The chart endpoint answers every request, whenever sent, with 401 or 403.\<close>

definition chartRefused :: "upstream \<Rightarrow> bool" where
  "chartRefused U =
     (\<forall>n symbol r i c k. \<exists>dt resp. U n (Chart symbol r i c k) = (dt, Responded resp) \<and>
        (status resp = 401 \<or> status resp = 403))"


section \<open>What a batch in flight maintains\<close>








text \<open>
  The state after \<open>GET /api/quote/__proto__\<close> was served from the ready state: the cache
  holds a live Quote Record under \<open>__proto__\<close>.
\<close>

definition protoQuoted :: state where
  "protoQuoted =
     \<lparr>crumb = Some ''c0'', cookieStr = Some ''A=1'',
       cache = [''__proto__'' \<mapsto> (Quote (buildQuote sampleResult 5), 30005)], clock = 5,
       sent = [Chart ''__proto__'' ''1d'' ''1d'' (Some ''c0'') (Some ''A=1'')]\<rparr>"

section \<open>Results of the quote fetcher\<close>

text \<open>
  Whatever record \<open>fetchQuote\<close> returns was built by lines 64 to 76 from the payload of
  the successful response to the last request, at the time the call ends.
\<close>

lemma fetch_lastOutcome:
  "fetch U req s = (out, s2) \<Longrightarrow> lastOutcome U s2 = out \<and> sent s2 = sent s @ [req]"
  by (auto simp: fetch_def lastOutcome_def Let_def split: prod.splits)

lemma fetchQuote_built:
  assumes "fetchQuote U symbol s = Some y"
  shows "\<forall>q s'. y = (Inr q, s') \<longrightarrow>
           (\<exists>resp result. lastOutcome U s' = Responded resp \<and> ok resp \<and>
              json resp = Inr result \<and> q = buildQuote result (clock s'))"
  using assms
proof (induct rule: fetchQuote.raw_induct[rotated 1, consumes 1])
  case (1 fq U symbol s y)
  show ?case using 1(2)
    apply (clarsimp simp: Let_def split: prod.splits if_splits outcome.splits sum.splits)
    subgoal using 1(1) by blast
    subgoal by (auto dest: fetch_lastOutcome)
    subgoal using 1(1) by blast
    subgoal by (auto dest: fetch_lastOutcome)
    done
qed

lemma buildQuote_fields:
  "isUp (buildQuote r t) =
     js_ge (quoteRecord.price (buildQuote r t)) (quoteRecord.previousClose (buildQuote r t))"
  "changePercent (buildQuote r t) =
     num_mul
       (num_div
          (js_sub (quoteRecord.price (buildQuote r t)) (quoteRecord.previousClose (buildQuote r t)))
          (toNumber (quoteRecord.previousClose (buildQuote r t))))
       (Fin 100)"
  by (simp_all add: buildQuote_def Let_def)

lemma fetchQuote_serving:
  "fetchQuote (serving result) symbol ready =
     Some (Inr (buildQuote result 5),
           ready\<lparr>sent := [Chart symbol ''1d'' ''1d'' (Some ''c0'') (Some ''A=1'')], clock := 5\<rparr>)"
  apply (subst fetchQuote.simps)
  apply (simp add: tokenMissing_def truthy_str_def ready_def fetch_def quoteRequest_def
      serving_def respond_def ok_def)
  done

text \<open>
  C1. Every record that \<open>fetchQuote\<close> returns has \<open>isUp\<close> equal to
  \<open>price >= previousClose\<close> and \<open>changePercent\<close> equal to
  \<open>(price - previousClose) / previousClose * 100\<close>, both computed from the \<open>price\<close> and
  \<open>previousClose\<close> of that same record. Equality of numbers is identity of the double,
  so a \<open>NaN\<close> result equals the \<open>NaN\<close> the expression gives.
\<close>

theorem fetchQuote_isUp_changePercent:
  "fetchQuote U symbol s = Some (Inr q, s') \<Longrightarrow>
     isUp q = js_ge (quoteRecord.price q) (quoteRecord.previousClose q) \<and>
     changePercent q =
       num_mul
         (num_div (js_sub (quoteRecord.price q) (quoteRecord.previousClose q))
            (toNumber (quoteRecord.previousClose q)))
         (Fin 100)"
  using fetchQuote_built[of U symbol s "(Inr q, s')"] buildQuote_fields by blast

theorem fetchQuote_isUp_changePercent_witness:
  "fetchQuote (serving sampleResult) ''AAPL'' ready =
     Some (Inr (buildQuote sampleResult 5),
           ready\<lparr>sent := [Chart ''AAPL'' ''1d'' ''1d'' (Some ''c0'') (Some ''A=1'')], clock := 5\<rparr>) \<and>
   isUp (buildQuote sampleResult 5) \<and> changePercent (buildQuote sampleResult 5) = Fin 10"
  using fetchQuote_isUp_changePercent[OF fetchQuote_serving[of sampleResult "''AAPL''"]]
  by (simp add: fetchQuote_serving buildQuote_def Let_def prevClose_def sampleResult_def
      sampleMeta_def js_or_def js_sub_def js_ge_def)

lemma prevClose_first_truthy:
  "prevClose m =
     (if truthy (meta.chartPreviousClose m) then meta.chartPreviousClose m
      else if truthy (meta.previousClose m) then meta.previousClose m
      else meta.regularMarketPrice m)"
  by (simp add: prevClose_def js_or_def)

lemma buildQuote_flat:
  assumes "\<not> truthy (meta.chartPreviousClose (chartResult.meta r))"
      and "\<not> truthy (meta.previousClose (chartResult.meta r))"
      and "meta.regularMarketPrice (chartResult.meta r) = Num (Fin p)" and "p \<noteq> 0"
  shows "change (buildQuote r t) = Fin 0 \<and> changePercent (buildQuote r t) = Fin 0"
  using assms by (simp add: buildQuote_def Let_def prevClose_first_truthy js_sub_def)

text \<open>
  C3, as the code has it. The \<open>previousClose\<close> of the returned record is the first
  truthy value among \<open>chartPreviousClose\<close>, \<open>previousClose\<close> and the current price of
  the payload, in that order, and the current price when neither close is truthy: \<open>||\<close>
  skips \<open>0\<close> and \<open>NaN\<close> as well as \<open>null\<close> and an absent field. A truthy
  \<open>chartPreviousClose\<close> is always chosen. When neither close field is truthy and the
  price is a finite number other than zero, \<open>change\<close> and \<open>changePercent\<close> are \<open>0\<close>.
\<close>

theorem fetchQuote_previousClose_fallback:
  assumes "fetchQuote U symbol s = Some (Inr q, s')"
  shows "\<exists>resp result.
           lastOutcome U s' = Responded resp \<and> json resp = Inr result \<and>
           quoteRecord.price q = meta.regularMarketPrice (chartResult.meta result) \<and>
           quoteRecord.previousClose q =
             (if truthy (meta.chartPreviousClose (chartResult.meta result))
              then meta.chartPreviousClose (chartResult.meta result)
              else if truthy (meta.previousClose (chartResult.meta result))
              then meta.previousClose (chartResult.meta result)
              else meta.regularMarketPrice (chartResult.meta result)) \<and>
           (\<not> truthy (meta.chartPreviousClose (chartResult.meta result)) \<and>
            \<not> truthy (meta.previousClose (chartResult.meta result)) \<and>
            (\<exists>p. meta.regularMarketPrice (chartResult.meta result) = Num (Fin p) \<and> p \<noteq> 0)
            \<longrightarrow> change q = Fin 0 \<and> changePercent q = Fin 0)"
proof -
  from fetchQuote_built[OF assms] obtain resp result where
    r: "lastOutcome U s' = Responded resp" "json resp = Inr result"
       "q = buildQuote result (clock s')" by blast
  have "quoteRecord.price q = meta.regularMarketPrice (chartResult.meta result)"
    and "quoteRecord.previousClose q = prevClose (chartResult.meta result)"
    using r(3) by (simp_all add: buildQuote_def Let_def)
  then show ?thesis using r buildQuote_flat[of result _ "clock s'"]
    by (auto simp: prevClose_first_truthy)
qed

theorem fetchQuote_previousClose_fallback_witness:
  "fetchQuote (serving noCloseResult) ''AAPL'' ready =
     Some (Inr (buildQuote noCloseResult 5),
           ready\<lparr>sent := [Chart ''AAPL'' ''1d'' ''1d'' (Some ''c0'') (Some ''A=1'')], clock := 5\<rparr>) \<and>
   quoteRecord.previousClose (buildQuote noCloseResult 5) = Num (Fin 110) \<and>
   change (buildQuote noCloseResult 5) = Fin 0 \<and>
   changePercent (buildQuote noCloseResult 5) = Fin 0"
  using fetchQuote_previousClose_fallback[OF fetchQuote_serving[of noCloseResult "''AAPL''"]]
  by (simp add: fetchQuote_serving buildQuote_def Let_def prevClose_def noCloseResult_def sampleResult_def
      sampleMeta_def js_or_def js_sub_def js_ge_def)

text \<open>
  C3 as stated fails: a \<open>chartPreviousClose\<close> of \<open>0\<close> is present and not \<open>null\<close>, yet
  \<open>previousClose\<close> is taken from the next field; and with no close field at a price of
  \<open>0\<close> the record has \<open>changePercent\<close> \<open>NaN\<close>, not \<open>0\<close>.
\<close>

theorem fetchQuote_previousClose_counterexample:
  "fetchQuote (serving zeroCloseResult) ''AAPL'' ready =
     Some (Inr (buildQuote zeroCloseResult 5),
           ready\<lparr>sent := [Chart ''AAPL'' ''1d'' ''1d'' (Some ''c0'') (Some ''A=1'')], clock := 5\<rparr>) \<and>
   meta.chartPreviousClose (chartResult.meta zeroCloseResult) = Num (Fin 0) \<and>
   meta.chartPreviousClose (chartResult.meta zeroCloseResult) \<noteq> Null \<and>
   quoteRecord.previousClose (buildQuote zeroCloseResult 5) = Num (Fin 5) \<and>
   fetchQuote (serving zeroPriceResult) ''AAPL'' ready =
     Some (Inr (buildQuote zeroPriceResult 5),
           ready\<lparr>sent := [Chart ''AAPL'' ''1d'' ''1d'' (Some ''c0'') (Some ''A=1'')], clock := 5\<rparr>) \<and>
   meta.chartPreviousClose (chartResult.meta zeroPriceResult) = Undefined \<and>
   meta.previousClose (chartResult.meta zeroPriceResult) = Undefined \<and>
   changePercent (buildQuote zeroPriceResult 5) = NaN"
  by (simp add: fetchQuote_serving buildQuote_def Let_def prevClose_def zeroCloseResult_def zeroPriceResult_def sampleResult_def
      sampleMeta_def js_or_def js_sub_def js_ge_def)

section \<open>Token acquisition and the Token Store\<close>

lemma initCrumb_crumbDenied:
  "initCrumb crumbDenied ready =
     (False, ready\<lparr>cookieStr := Some ''B=9; C=3'', sent := [Consent, GetCrumb ''B=9; C=3''], clock := 10\<rparr>)"
  by (simp add: initCrumb_def fetch_def crumbDenied_def respond_def ready_def cookieHeader_def ok_def Let_def)

lemma initCrumb_serving:
  "initCrumb (serving r) ready =
     (True, ready\<lparr>crumb := Some ''c1'', cookieStr := Some ''A=2'', sent := [Consent, GetCrumb ''A=2''], clock := 10\<rparr>)"
  by (simp add: initCrumb_def fetch_def serving_def respond_def ready_def cookieHeader_def ok_def Let_def)

text \<open>
  C2, as the code has it. When the acquisition fails the crumb keeps its value, and it
  is replaced only when the whole acquisition succeeds. \<open>cookieStr\<close> is overwritten with
  the new cookie header as soon as the cookie request is answered (line 23), before the
  crumb is requested: after a failure of the crumb step the Token Store holds the new
  \<open>cookieStr\<close> beside the old crumb. Only a rejected cookie request leaves both fields
  as they were. The cache is never touched.
\<close>

theorem initCrumb_token_store:
  assumes "initCrumb U s = (acquired, s')"
  shows "(\<not> acquired \<longrightarrow> crumb s' = crumb s) \<and>
         (case snd (U (length (sent s)) Consent) of
            Rejected e \<Rightarrow> \<not> acquired \<and> cookieStr s' = cookieStr s
          | Responded consentResp \<Rightarrow>
              cookieStr s' =
                Some (cookieHeader (case getSetCookie consentResp of Some cs \<Rightarrow> cs | None \<Rightarrow> []))) \<and>
         (acquired \<longrightarrow>
            (\<exists>crumbResp t. lastOutcome U s' = Responded crumbResp \<and> ok crumbResp \<and>
               text' crumbResp = Inr t \<and> crumb s' = Some t)) \<and>
         cache s' = cache s"
  using assms
  by (auto simp: initCrumb_def fetch_def lastOutcome_def Let_def
      split: prod.splits outcome.splits option.splits if_splits sum.splits)

theorem initCrumb_token_store_witness:
  "initCrumb crumbDenied ready =
     (False, ready\<lparr>cookieStr := Some ''B=9; C=3'', sent := [Consent, GetCrumb ''B=9; C=3''], clock := 10\<rparr>) \<and>
   crumb (ready\<lparr>cookieStr := Some ''B=9; C=3'', sent := [Consent, GetCrumb ''B=9; C=3''], clock := 10\<rparr>) = crumb ready"
  using initCrumb_token_store[OF initCrumb_crumbDenied]
  by (simp add: initCrumb_crumbDenied)

text \<open>
  C2 as stated fails: the crumb request is refused, the acquisition returns \<open>false\<close>,
  and \<open>cookieStr\<close> has changed.
\<close>

theorem initCrumb_atomic_counterexample:
  "initCrumb crumbDenied ready =
     (False, ready\<lparr>cookieStr := Some ''B=9; C=3'', sent := [Consent, GetCrumb ''B=9; C=3''], clock := 10\<rparr>) \<and>
   cookieStr ready = Some ''A=1'' \<and>
   cookieStr (snd (initCrumb crumbDenied ready)) = Some ''B=9; C=3''"
  by (simp add: initCrumb_crumbDenied) (simp add: ready_def)

section \<open>The history fetcher\<close>

lemma enumerate_pad:
  "map (\<lambda>(i, t). (t, js_nth ps i)) (enumerate 0 ts) =
     zip ts (ps @ replicate (length ts - length ps) Undefined)"
  by (rule nth_equalityI) (auto simp: js_nth_def nth_enumerate_eq nth_append)

lemma historyPoints_zip:
  "historyPoints result =
     map (\<lambda>(t, p). \<lparr>point.time = t, point.price = p\<rparr>)
       (filter (\<lambda>(t, p). p \<noteq> Null)
          (zip (timestamps result)
             (prices result @
              replicate (length (timestamps result) - length (prices result)) Undefined)))"
proof -
  have *: "map (\<lambda>(i, t). \<lparr>point.time = t, point.price = js_nth ps i\<rparr>) (enumerate 0 ts)
        = map (\<lambda>(t, p). \<lparr>point.time = t, point.price = p\<rparr>) (map (\<lambda>(i, t). (t, js_nth ps i)) (enumerate 0 ts))" for ps ts
    by (simp add: case_prod_beta comp_def)
  show ?thesis
    unfolding historyPoints_def * enumerate_pad
    by (simp add: filter_map comp_def case_prod_unfold)
qed

lemma fetchHistory_miss:
  assumes "cache_get (cache s) (clock s) (cacheKey symbol range') = None"
      and "(if tokenMissing s then initCrumb U s else (True, s)) = (True, s1)"
      and "fetch U (historyRequest symbol range' s1) s1 = (Responded resp, s2)"
      and "ok resp" and "json resp = Inr result"
  shows "fetchHistory U symbol range' s =
           (Inr (History (historyPoints result)),
            s2\<lparr>cache := cache_set (cache s2) (clock s2) (cacheKey symbol range')
                            (History (historyPoints result)) 60\<rparr>)"
  using assms by (simp add: fetchHistory_def Let_def)

lemma sample_historyPoints:
  "timestamps r = [Num (Fin 1), Num (Fin 2), Num (Fin 3)] \<Longrightarrow>
   prices r = [Num (Fin 10), Null, Num (Fin 12)] \<Longrightarrow>
   historyPoints r = samplePoints"
  by (simp add: historyPoints_def samplePoints_def js_nth_def)

lemma fetchHistory_serving:
  "fetchHistory (serving r) symbol range' ready =
     (Inr (History (historyPoints r)),
      ready\<lparr>sent := [Chart symbol range' (intervalOf range') (Some ''c0'') (Some ''A=1'')], clock := 5,
            cache := [cacheKey symbol range' \<mapsto> (History (historyPoints r), 60005)]\<rparr>)"
  by (simp add: fetchHistory_def cache_get_def cache_set_def ready_def tokenMissing_def truthy_str_def fetch_def 
       historyRequest_def serving_def respond_def ok_def Let_def)

text \<open>
  C4, as the code has it. On a cache miss, with a token at hand or acquired, and a
  successful upstream response, \<open>fetchHistory\<close> pairs the timestamps with the closing
  prices pointwise, in upstream order, and drops exactly the points whose price is
  \<open>null\<close>. A timestamp with
  no price at its index (the close array is shorter, or absent) keeps its point, with
  the price \<open>undefined\<close>: the filter of line 112 tests \<open>!== null\<close> only. Timestamps
  \<open>[1, 2, 3]\<close> with closes \<open>[10, null, 12]\<close> give exactly the points \<open>(1, 10)\<close> and
  \<open>(3, 12)\<close>.
\<close>

theorem fetchHistory_points:
  assumes "cache_get (cache s) (clock s) (cacheKey symbol range') = None"
      and "(if tokenMissing s then initCrumb U s else (True, s)) = (True, s1)"
      and "fetch U (historyRequest symbol range' s1) s1 = (Responded resp, s2)"
      and "ok resp" and "json resp = Inr result"
  shows "fst (fetchHistory U symbol range' s) =
           Inr (History (map (\<lambda>(t, p). \<lparr>point.time = t, point.price = p\<rparr>)
                  (filter (\<lambda>(t, p). p \<noteq> Null)
                     (zip (timestamps result)
                        (prices result @
                         replicate (length (timestamps result) - length (prices result))
                           Undefined))))) \<and>
         (timestamps result = [Num (Fin 1), Num (Fin 2), Num (Fin 3)] \<and>
          prices result = [Num (Fin 10), Null, Num (Fin 12)] \<longrightarrow>
            fst (fetchHistory U symbol range' s) =
              Inr (History [\<lparr>point.time = Num (Fin 1), point.price = Num (Fin 10)\<rparr>,
                            \<lparr>point.time = Num (Fin 3), point.price = Num (Fin 12)\<rparr>]))"
proof -
  have f: "fst (fetchHistory U symbol range' s) = Inr (History (historyPoints result))"
    using fetchHistory_miss[OF assms] by simp
  show ?thesis
    unfolding f using sample_historyPoints[of result]
    by (auto simp: historyPoints_zip[symmetric] samplePoints_def)
qed

lemma ready_miss: "cache_get (cache ready) (clock ready) k = None"
  by (simp add: cache_get_def ready_def)

lemma ready_token: "(if tokenMissing ready then initCrumb U ready else (True, ready)) = (True, ready)"
  by (simp add: tokenMissing_def truthy_str_def ready_def)

lemma ready_fetch_serving:
  "fetch (serving r) (historyRequest symbol range' ready) ready =
     (Responded \<lparr>status = 200, getSetCookie = Some [], text' = Inr [], json = Inr r\<rparr>,
      ready\<lparr>sent := [historyRequest symbol range' ready], clock := 5\<rparr>)"
  by (simp add: fetch_def serving_def respond_def historyRequest_def ready_def)

theorem fetchHistory_points_witness:
  "fst (fetchHistory (serving sampleResult) ''AAPL'' ''1d'' ready) =
     Inr (History [\<lparr>point.time = Num (Fin 1), point.price = Num (Fin 10)\<rparr>,
                   \<lparr>point.time = Num (Fin 3), point.price = Num (Fin 12)\<rparr>])"
  using fetchHistory_points[OF ready_miss ready_token ready_fetch_serving[of sampleResult "''AAPL''" "''1d''"]]
  by (simp add: ok_def timestamps_def prices_def sampleResult_def sampleQuote_def)

text \<open>
  C4 as stated fails: with a close array shorter than the timestamp array the points
  without a price are not dropped.
\<close>

theorem fetchHistory_missing_price_counterexample:
  "chartResult.timestamp shortCloseResult = Some [Num (Fin 1), Num (Fin 2), Num (Fin 3)] \<and>
   quote.close (chartResult.quote shortCloseResult) = Some [Num (Fin 10)] \<and>
   fst (fetchHistory (serving shortCloseResult) ''AAPL'' ''1d'' ready) =
     Inr (History [\<lparr>point.time = Num (Fin 1), point.price = Num (Fin 10)\<rparr>,
                   \<lparr>point.time = Num (Fin 2), point.price = Undefined\<rparr>,
                   \<lparr>point.time = Num (Fin 3), point.price = Undefined\<rparr>])"
  by (simp add: fetchHistory_serving historyPoints_def timestamps_def prices_def shortCloseResult_def sampleResult_def sampleQuote_def js_nth_def)

lemma split_last_underscore:
  assumes "CHR ''_'' \<notin> set r1" "CHR ''_'' \<notin> set r2" "a1 @ ''_'' @ r1 = a2 @ ''_'' @ r2"
  shows "a1 = a2 \<and> r1 = r2"
proof -
  have t: "takeWhile (\<lambda>c. c \<noteq> CHR ''_'') (rev (a @ ''_'' @ r)) = rev r" if "CHR ''_'' \<notin> set r" for a r
  proof -
    have "\<And>x. x \<in> set (rev r) \<Longrightarrow> x \<noteq> CHR ''_''" using that by auto
    from takeWhile_append2[of "rev r" "\<lambda>c. c \<noteq> CHR ''_''" "CHR ''_'' # rev a", OF this]
    show ?thesis by simp
  qed
  have "rev r1 = takeWhile (\<lambda>c. c \<noteq> CHR ''_'') (rev (a1 @ ''_'' @ r1))"
    using t[OF assms(1), of a1] by simp
  also have "\<dots> = takeWhile (\<lambda>c. c \<noteq> CHR ''_'') (rev (a2 @ ''_'' @ r2))"
    unfolding assms(3) ..
  also have "\<dots> = rev r2" using t[OF assms(2), of a2] by simp
  finally have "rev r1 = rev r2" .
  then have "r1 = r2" by simp
  with assms(3) show ?thesis by simp
qed

lemma cacheKey_inj:
  assumes "CHR ''_'' \<notin> set r1" "CHR ''_'' \<notin> set r2"
  shows "(cacheKey a1 r1 = cacheKey a2 r2) = (a1 = a2 \<and> r1 = r2)"
  using split_last_underscore[OF assms, of a1 a2] by (auto simp: cacheKey_def)

lemma fetchHistory_hit:
  "cache_get (cache s) (clock s) (cacheKey symbol range') = Some v \<Longrightarrow>
   fetchHistory U symbol range' s = (Inr v, s)"
  by (simp add: fetchHistory_def)

lemma initCrumb_cache: "cache (snd (initCrumb U s)) = cache s"
  by (auto simp: initCrumb_def fetch_def Let_def split: prod.splits outcome.splits sum.splits)

lemma fetch_cache: "cache (snd (fetch U req s)) = cache s"
  by (auto simp: fetch_def Let_def split: prod.splits)

lemma fetchHistory_stores:
  assumes "cache_get (cache s) (clock s) (cacheKey symbol range') = None"
      and "fetchHistory U symbol range' s = (Inr v, s')"
  shows "cache s' = (cache s)(cacheKey symbol range' \<mapsto> (v, clock s' + 60 * 1000))"
  using assms initCrumb_cache[of U s] 
  apply (simp add: fetchHistory_def Let_def cache_set_def split: prod.splits if_splits outcome.splits sum.splits)
  apply (auto simp: fetch_def Let_def split: prod.splits)
  done

text \<open>
  C9, as the code has it. \<open>fetchHistory\<close> is read-through under the key
  \<open>chart_{symbol}_{range}\<close> (line 81): a live entry under that key is returned with no
  token acquisition, no upstream request and no other change of state; on a miss a
  fetched sequence is stored under that key, all other entries untouched, and stays
  readable until 60 seconds after the call ends. Two different (symbol, range) pairs
  have different keys whenever neither range contains an underscore, as is the case for
  the six ranges of the contract.
\<close>

theorem fetchHistory_read_through:
  "(cache_get (cache s) (clock s) (''chart_'' @ symbol @ ''_'' @ range') = Some v \<longrightarrow>
      fetchHistory U symbol range' s = (Inr v, s)) \<and>
   (cache_get (cache s) (clock s) (''chart_'' @ symbol @ ''_'' @ range') = None \<and>
    fetchHistory U symbol range' s = (Inr v, s') \<longrightarrow>
      cache s' = (cache s)(''chart_'' @ symbol @ ''_'' @ range' \<mapsto> (v, clock s' + 60 * 1000)) \<and>
      (\<forall>now. cache_get (cache s') now (''chart_'' @ symbol @ ''_'' @ range') =
               (if clock s' + 60 * 1000 < now then None else Some v))) \<and>
   (CHR ''_'' \<notin> set range' \<and> CHR ''_'' \<notin> set range2 \<and> (symbol, range') \<noteq> (symbol2, range2) \<longrightarrow>
      ''chart_'' @ symbol @ ''_'' @ range' \<noteq> ''chart_'' @ symbol2 @ ''_'' @ range2)"
  using fetchHistory_hit[of s symbol range' v U] fetchHistory_stores[of s symbol range' U v s']
    cacheKey_inj[of range' range2 symbol symbol2]
  by (auto simp: cacheKey_def cache_get_def)

lemma sample_points: "historyPoints sampleResult = samplePoints"
  by (simp add: historyPoints_def timestamps_def prices_def sampleResult_def sampleQuote_def samplePoints_def js_nth_def)

lemma warm_hit:
  "cache_get (cache warm) (clock warm) (''chart_'' @ ''AAPL'' @ ''_'' @ ''1d'') = Some (History samplePoints)"
  by (simp add: cache_get_def warm_def ready_def)

lemma fetchHistory_ready_sample:
  "fetchHistory (serving sampleResult) ''AAPL'' ''1d'' ready =
     (Inr (History samplePoints),
      ready\<lparr>sent := [Chart ''AAPL'' ''1d'' ''5m'' (Some ''c0'') (Some ''A=1'')], clock := 5,
            cache := [''chart_AAPL_1d'' \<mapsto> (History samplePoints, 60005)]\<rparr>)"
  using fetchHistory_serving[of sampleResult "''AAPL''" "''1d''"]
  by (simp add: sample_points cacheKey_def intervalOf_def)

theorem fetchHistory_read_through_witness:
  "cache_get (cache warm) (clock warm) (''chart_'' @ ''AAPL'' @ ''_'' @ ''1d'') = Some (History samplePoints) \<and>
   fetchHistory (serving sampleResult) ''AAPL'' ''1d'' warm = (Inr (History samplePoints), warm) \<and>
   cache_get (cache ready) (clock ready) (''chart_'' @ ''AAPL'' @ ''_'' @ ''1d'') = None \<and>
   fetchHistory (serving sampleResult) ''AAPL'' ''1d'' ready =
     (Inr (History samplePoints),
      ready\<lparr>sent := [Chart ''AAPL'' ''1d'' ''5m'' (Some ''c0'') (Some ''A=1'')], clock := 5,
            cache := [''chart_AAPL_1d'' \<mapsto> (History samplePoints, 60005)]\<rparr>) \<and>
   cache_get
     (cache (ready\<lparr>sent := [Chart ''AAPL'' ''1d'' ''5m'' (Some ''c0'') (Some ''A=1'')], clock := 5,
            cache := [''chart_AAPL_1d'' \<mapsto> (History samplePoints, 60005)]\<rparr>))
     60006 (''chart_'' @ ''AAPL'' @ ''_'' @ ''1d'') = None \<and>
   ''chart_'' @ ''AAPL'' @ ''_'' @ ''1d'' \<noteq> ''chart_'' @ ''AAPL'' @ ''_'' @ ''5d''"
proof -
  note T = fetchHistory_read_through[of warm "''AAPL''" "''1d''" "History samplePoints"
      "serving sampleResult" warm "''5d''" "''AAPL''"]
  from T warm_hit
  have "fetchHistory (serving sampleResult) ''AAPL'' ''1d'' warm = (Inr (History samplePoints), warm)"
    by blast
  then show ?thesis
    using warm_hit fetchHistory_ready_sample ready_miss[of "''chart_'' @ ''AAPL'' @ ''_'' @ ''1d''"]
    by (simp add: cache_get_def)
qed

text \<open>
  C9 as stated fails: a live entry under \<open>history:AAPL:1d\<close> is not consulted, the
  upstream is asked; and two different (symbol, range) pairs share one key.
\<close>

theorem fetchHistory_key_counterexample:
  "cache_get (cache mislabelled) (clock mislabelled) ''history:AAPL:1d'' = Some (History []) \<and>
   fst (fetchHistory (serving sampleResult) ''AAPL'' ''1d'' mislabelled) = Inr (History samplePoints) \<and>
   sent mislabelled = [] \<and>
   sent (snd (fetchHistory (serving sampleResult) ''AAPL'' ''1d'' mislabelled)) =
     [Chart ''AAPL'' ''1d'' ''5m'' (Some ''c0'') (Some ''A=1'')] \<and>
   (''A_1d'', ''5d'') \<noteq> (''A'', ''1d_5d'') \<and>
   cacheKey ''A_1d'' ''5d'' = cacheKey ''A'' ''1d_5d''"
  by (simp add: fetchHistory_def cache_get_def cache_set_def mislabelled_def ready_def tokenMissing_def truthy_str_def fetch_def 
       historyRequest_def serving_def respond_def ok_def Let_def cacheKey_def intervalOf_def sample_points)

section \<open>The routes on a cache hit and on an invalid batch\<close>

text \<open>
  C6. A batch request whose \<open>symbols\<close> field is missing, not an array, or an empty
  array is answered with status 400 and \<open>{error: "symbols must be a non-empty array"}\<close>,
  whatever the upstream and the schedule, and the state is the one before the request:
  nothing was sent, no token acquired, no cache entry written.
\<close>

theorem batchRoute_validation:
  "(\<forall>symbols. field = Array symbols \<longrightarrow> symbols = []) \<Longrightarrow>
   batchRoute U field schedule s =
     (Some (400, One (Failure ''symbols must be a non-empty array'')), s)"
  by (cases field) (simp_all add: batchRoute_def)

theorem batchRoute_validation_witness:
  "batchRoute lockedOut (Array []) [0, 1] fresh =
     (Some (400, One (Failure ''symbols must be a non-empty array'')), fresh) \<and>
   batchRoute lockedOut Missing [0, 1] fresh =
     (Some (400, One (Failure ''symbols must be a non-empty array'')), fresh) \<and>
   batchRoute lockedOut NotArray [0, 1] fresh =
     (Some (400, One (Failure ''symbols must be a non-empty array'')), fresh)"
  using batchRoute_validation[of "Array []" lockedOut "[0, 1]" fresh]
    batchRoute_validation[of Missing lockedOut "[0, 1]" fresh]
    batchRoute_validation[of NotArray lockedOut "[0, 1]" fresh]
  by simp

text \<open>
  On a live cache entry under the symbol the quote route answers 200 with the cached
  value, and a batch task is finished before its first await; in both cases the state
  is unchanged, so no request was sent, the Token Store is as before and no cache entry
  was written or refreshed. The batch task assigns the cached value to
  \<open>results[symbol]\<close>.
\<close>

lemma cache_hit_frame:
  "cache_get (cache s) (clock s) symbol = Some cached \<Longrightarrow>
   quoteRoute U symbol s = Some ((200, One (Data cached)), s) \<and>
   start U symbol s rs = (Finished, s, results_set rs symbol (Data cached))"
  by (simp add: quoteRoute_def start_def)

lemma quoted_hit:
  "cache_get (cache quoted) (clock quoted) ''AAPL'' = Some (Quote (buildQuote sampleResult 5))"
  by (simp add: cache_get_def quoted_def ready_def)

lemma cache_hit_quoted:
  "quoteRoute lockedOut ''AAPL'' quoted =
     Some ((200, One (Data (Quote (buildQuote sampleResult 5)))), quoted) \<and>
   batchRoute lockedOut (Array [''AAPL'']) [] quoted =
     (Some (200, Many [''AAPL'' \<mapsto> Data (Quote (buildQuote sampleResult 5))]), quoted)"
  using cache_hit_frame[OF quoted_hit, of lockedOut Map.empty]
  by (simp add: batchRoute_def run_def allFinished_def results_set_def)

lemma quoteRoute_proto:
  "quoteRoute (serving sampleResult) ''__proto__'' ready =
     Some ((200, One (Data (Quote (buildQuote sampleResult 5)))), protoQuoted)"
  by (simp add: quoteRoute_def fetchQuote_serving ready_miss)
     (simp add: ready_def protoQuoted_def cache_set_def stdTTL_def)

lemma protoQuoted_hit:
  "cache_get (cache protoQuoted) (clock protoQuoted) ''__proto__'' =
     Some (Quote (buildQuote sampleResult 5))"
  by (simp add: cache_get_def protoQuoted_def)

text \<open>
  C10 on the symbol \<open>__proto__\<close>. The quote route has served \<open>__proto__\<close> and the cache
  holds its live Quote Record. The quote route returns that record again, and the batch
  task hits the cache and leaves the state unchanged, but its assignment to
  \<open>results['__proto__']\<close> (line 151) adds no key: the batch answers 200 with the empty
  mapping, and the cached record is not returned.
\<close>

theorem batch_hit_proto:
  "quoteRoute (serving sampleResult) ''__proto__'' ready =
     Some ((200, One (Data (Quote (buildQuote sampleResult 5)))), protoQuoted) \<and>
   cache_get (cache protoQuoted) (clock protoQuoted) ''__proto__'' =
     Some (Quote (buildQuote sampleResult 5)) \<and>
   quoteRoute lockedOut ''__proto__'' protoQuoted =
     Some ((200, One (Data (Quote (buildQuote sampleResult 5)))), protoQuoted) \<and>
   batchRoute lockedOut (Array [''__proto__'']) [] protoQuoted =
     (Some (200, Many Map.empty), protoQuoted)"
proof -
  have "batchRoute lockedOut (Array [''__proto__'']) [] protoQuoted =
     (Some (200, Many Map.empty), protoQuoted)"
    using protoQuoted_hit
    by (simp add: batchRoute_def run_def start_def results_set_def allFinished_def deliver_def)
  moreover have "quoteRoute lockedOut ''__proto__'' protoQuoted =
     Some ((200, One (Data (Quote (buildQuote sampleResult 5)))), protoQuoted)"
    using protoQuoted_hit by (simp add: quoteRoute_def)
  ultimately show ?thesis using quoteRoute_proto protoQuoted_hit by simp
qed

section \<open>Retry after a refused token\<close>

lemma initCrumb_sent:
  "initCrumb U s = (acquired, s') \<Longrightarrow>
   sent s' = sent s @ [Consent] \<or> (\<exists>c. sent s' = sent s @ [Consent, GetCrumb c])"
  by (auto simp: initCrumb_def fetch_def Let_def
      split: prod.splits outcome.splits if_splits sum.splits)

lemma ok_not_refused: "ok r \<Longrightarrow> \<not> (status r = 401 \<or> status r = 403)"
  by (auto simp: ok_def)

text \<open>
  C7, as the code has it. Once \<open>fetchQuote\<close> holds a token (at hand, or acquired at
  line 42), when the first chart request is answered 401 or 403, the re-acquisition of
  line 54 leaves a non-empty crumb and cookie in the Token Store, and the second chart
  request is answered successfully with a readable payload, \<open>fetchQuote\<close> returns the
  record built from that second response, and between the two chart requests it has sent
  the requests of exactly one acquisition: one consent request, followed by at most one
  crumb request.
\<close>

theorem fetchQuote_one_retry:
  assumes "(if tokenMissing s then initCrumb U s else (True, s)) = (True, s1)"
      and "fetch U (quoteRequest symbol s1) s1 = (Responded r1, s2)"
      and "status r1 = 401 \<or> status r1 = 403"
      and "initCrumb U s2 = (acquired, s3)"
      and "\<not> tokenMissing s3"
      and "fetch U (quoteRequest symbol s3) s3 = (Responded r2, s4)"
      and "ok r2" and "json r2 = Inr result"
  shows "fetchQuote U symbol s = Some (Inr (buildQuote result (clock s4)), s4) \<and>
         (\<exists>acq. sent s4 = sent s1 @ [quoteRequest symbol s1] @ acq @ [quoteRequest symbol s3] \<and>
                (acq = [Consent] \<or> (\<exists>c. acq = [Consent, GetCrumb c])))"
proof -
  have retry: "fetchQuote U symbol s3 = Some (Inr (buildQuote result (clock s4)), s4)"
    using assms(5-8) ok_not_refused[OF assms(7)]
    by (subst fetchQuote.simps) simp
  have "fetchQuote U symbol s = fetchQuote U symbol s3"
    using assms(1-4) by (subst fetchQuote.simps) simp
  moreover have "sent s2 = sent s1 @ [quoteRequest symbol s1]"
    using fetch_lastOutcome[OF assms(2)] by simp
  moreover have "sent s4 = sent s3 @ [quoteRequest symbol s3]"
    using fetch_lastOutcome[OF assms(6)] by simp
  ultimately show ?thesis using retry initCrumb_sent[OF assms(4)] by auto
qed


lemma expired_first:
  "fetch expired (quoteRequest ''AAPL'' ready) ready =
     (Responded \<lparr>status = 401, getSetCookie = Some [], text' = Inr [], json = Inr sampleResult\<rparr>,
      \<lparr>crumb = Some ''c0'', cookieStr = Some ''A=1'', cache = Map.empty, clock = 5,
        sent = [Chart ''AAPL'' ''1d'' ''1d'' (Some ''c0'') (Some ''A=1'')]\<rparr>)"
  by (simp add: fetch_def expired_def respond_def quoteRequest_def ready_def)

lemma expired_refresh:
  "initCrumb expired
     \<lparr>crumb = Some ''c0'', cookieStr = Some ''A=1'', cache = Map.empty, clock = 5,
       sent = [Chart ''AAPL'' ''1d'' ''1d'' (Some ''c0'') (Some ''A=1'')]\<rparr> =
     (True,
      \<lparr>crumb = Some ''c1'', cookieStr = Some ''A=2'', cache = Map.empty, clock = 15,
        sent = [Chart ''AAPL'' ''1d'' ''1d'' (Some ''c0'') (Some ''A=1''), Consent, GetCrumb ''A=2'']\<rparr>)"
  by (simp add: initCrumb_def fetch_def expired_def respond_def cookieHeader_def ok_def Let_def)

lemma expired_second:
  "fetch expired
     (quoteRequest ''AAPL''
        \<lparr>crumb = Some ''c1'', cookieStr = Some ''A=2'', cache = Map.empty, clock = 15,
          sent = [Chart ''AAPL'' ''1d'' ''1d'' (Some ''c0'') (Some ''A=1''), Consent, GetCrumb ''A=2'']\<rparr>)
     \<lparr>crumb = Some ''c1'', cookieStr = Some ''A=2'', cache = Map.empty, clock = 15,
       sent = [Chart ''AAPL'' ''1d'' ''1d'' (Some ''c0'') (Some ''A=1''), Consent, GetCrumb ''A=2'']\<rparr> =
     (Responded \<lparr>status = 200, getSetCookie = Some [], text' = Inr [], json = Inr sampleResult\<rparr>,
      \<lparr>crumb = Some ''c1'', cookieStr = Some ''A=2'', cache = Map.empty, clock = 20,
        sent = [Chart ''AAPL'' ''1d'' ''1d'' (Some ''c0'') (Some ''A=1''), Consent, GetCrumb ''A=2'',
                Chart ''AAPL'' ''1d'' ''1d'' (Some ''c1'') (Some ''A=2'')]\<rparr>)"
  by (simp add: fetch_def expired_def respond_def quoteRequest_def)

theorem fetchQuote_one_retry_witness:
  "fetchQuote expired ''AAPL'' ready =
     Some (Inr (buildQuote sampleResult 20),
           \<lparr>crumb = Some ''c1'', cookieStr = Some ''A=2'', cache = Map.empty, clock = 20,
             sent = [Chart ''AAPL'' ''1d'' ''1d'' (Some ''c0'') (Some ''A=1''), Consent, GetCrumb ''A=2'',
                     Chart ''AAPL'' ''1d'' ''1d'' (Some ''c1'') (Some ''A=2'')]\<rparr>)"
proof -
  have "\<not> tokenMissing
     \<lparr>crumb = Some ''c1'', cookieStr = Some ''A=2'', cache = Map.empty, clock = 15,
       sent = [Chart ''AAPL'' ''1d'' ''1d'' (Some ''c0'') (Some ''A=1''), Consent, GetCrumb ''A=2'']\<rparr>"
    by (simp add: tokenMissing_def truthy_str_def)
  from fetchQuote_one_retry[OF ready_token expired_first _ expired_refresh this expired_second]
  show ?thesis by (simp add: ok_def)
qed

text \<open>
  C7 as stated fails: the first chart request is answered 401 and the second 200, and the
  record is returned, but the consent endpoint sets no cookie, so the re-acquisition
  leaves \<open>cookieStr\<close> empty and the retry acquires the token once more at line 42: two
  acquisitions lie between the two chart requests.
\<close>

theorem fetchQuote_one_retry_counterexample:
  "fetchQuote cookieless ''AAPL'' ready =
     Some (Inr (buildQuote sampleResult 30),
           \<lparr>crumb = Some ''c1'', cookieStr = Some [], cache = Map.empty, clock = 30,
             sent = [Chart ''AAPL'' ''1d'' ''1d'' (Some ''c0'') (Some ''A=1''),
                     Consent, GetCrumb [], Consent, GetCrumb [],
                     Chart ''AAPL'' ''1d'' ''1d'' (Some ''c1'') (Some [])]\<rparr>) \<and>
   cookieless 0 (Chart ''AAPL'' ''1d'' ''1d'' (Some ''c0'') (Some ''A=1'')) =
     respond 401 [] [] sampleResult \<and>
   cookieless 5 (Chart ''AAPL'' ''1d'' ''1d'' (Some ''c1'') (Some [])) =
     respond 200 [] [] sampleResult"
proof -
  have i: "initCrumb cookieless \<lparr>crumb = cr, cookieStr = ck, cache = Map.empty, clock = t, sent = xs\<rparr> =
     (True, \<lparr>crumb = Some ''c1'', cookieStr = Some [], cache = Map.empty, clock = t + 10,
             sent = xs @ [Consent, GetCrumb []]\<rparr>)" for cr ck t xs
    by (simp add: initCrumb_def fetch_def cookieless_def respond_def cookieHeader_def ok_def Let_def)
  have 2: "fetchQuote cookieless ''AAPL''
       \<lparr>crumb = Some ''c1'', cookieStr = Some [], cache = Map.empty, clock = 15,
         sent = [Chart ''AAPL'' ''1d'' ''1d'' (Some ''c0'') (Some ''A=1''), Consent, GetCrumb []]\<rparr> =
     Some (Inr (buildQuote sampleResult 30),
           \<lparr>crumb = Some ''c1'', cookieStr = Some [], cache = Map.empty, clock = 30,
             sent = [Chart ''AAPL'' ''1d'' ''1d'' (Some ''c0'') (Some ''A=1''),
                     Consent, GetCrumb [], Consent, GetCrumb [],
                     Chart ''AAPL'' ''1d'' ''1d'' (Some ''c1'') (Some [])]\<rparr>)"
    apply (subst fetchQuote.simps)
    apply (simp add: tokenMissing_def truthy_str_def i)
    apply (simp add: fetch_def cookieless_def respond_def quoteRequest_def ok_def)
    done
  have 1: "fetchQuote cookieless ''AAPL'' ready =
     fetchQuote cookieless ''AAPL''
       \<lparr>crumb = Some ''c1'', cookieStr = Some [], cache = Map.empty, clock = 15,
         sent = [Chart ''AAPL'' ''1d'' ''1d'' (Some ''c0'') (Some ''A=1''), Consent, GetCrumb []]\<rparr>"
    apply (subst fetchQuote.simps)
    apply (simp add: tokenMissing_def truthy_str_def ready_def fetch_def cookieless_def respond_def quoteRequest_def i)
    done
  show ?thesis unfolding 1 2 by (simp add: cookieless_def)
qed

section \<open>A token refused on every attempt\<close>

lemma chartRefused_fetch:
  assumes "chartRefused U"
  shows "\<exists>resp. fst (fetch U (quoteRequest symbol s) s) = Responded resp \<and>
           (status resp = 401 \<or> status resp = 403)"
proof -
  obtain dt resp where
    "U (length (sent s)) (Chart symbol ''1d'' ''1d'' (crumb s) (cookieStr s)) = (dt, Responded resp)"
    "status resp = 401 \<or> status resp = 403"
    using assms unfolding chartRefused_def by blast
  then show ?thesis by (simp add: fetch_def quoteRequest_def)
qed

lemma refused_only_error:
  assumes "fetchQuote U symbol s = Some y"
  shows "chartRefused U \<longrightarrow> (\<exists>s'. y = (Inl (Error ''Cannot acquire Yahoo Finance crumb''), s'))"
  using assms
proof (induct rule: fetchQuote.raw_induct[rotated 1, consumes 1])
  case (1 fq U symbol s y)
  show ?case
  proof
    assume r: "chartRefused U"
    obtain acquired s1 where a: "(if tokenMissing s then initCrumb U s else (True, s)) = (acquired, s1)"
      by (cases "if tokenMissing s then initCrumb U s else (True, s)")
    obtain out s2 where f: "fetch U (quoteRequest symbol s1) s1 = (out, s2)"
      by (cases "fetch U (quoteRequest symbol s1) s1")
    from chartRefused_fetch[OF r, of symbol s1] f obtain resp where
      o: "out = Responded resp" "status resp = 401 \<or> status resp = 403" by auto
    show "\<exists>s'. y = (Inl (Error ''Cannot acquire Yahoo Finance crumb''), s')"
    proof (cases acquired)
      case False
      with 1(2) a show ?thesis by auto
    next
      case True
      with 1(2) a f o have "fq U symbol (snd (initCrumb U s2)) = Some y" by auto
      from 1(1)[OF this] r show ?thesis by blast
    qed
  qed
qed

lemma refused_never_returns:
  assumes "fetchQuote U symbol s = Some y"
  shows "chartRefused U \<and>
         ((\<forall>s0. tokenMissing s0 \<longrightarrow> fst (initCrumb U s0)) \<or>
          (\<not> tokenMissing s \<and> (\<forall>s0. \<not> tokenMissing s0 \<longrightarrow> \<not> tokenMissing (snd (initCrumb U s0)))))
         \<longrightarrow> False"
  using assms
proof (induct rule: fetchQuote.raw_induct[rotated 1, consumes 1])
  case (1 fq U symbol s y)
  show ?case
  proof
    assume h: "chartRefused U \<and>
         ((\<forall>s0. tokenMissing s0 \<longrightarrow> fst (initCrumb U s0)) \<or>
          (\<not> tokenMissing s \<and> (\<forall>s0. \<not> tokenMissing s0 \<longrightarrow> \<not> tokenMissing (snd (initCrumb U s0)))))"
    then have r: "chartRefused U" by simp
    obtain acquired s1 where a: "(if tokenMissing s then initCrumb U s else (True, s)) = (acquired, s1)"
      by (cases "if tokenMissing s then initCrumb U s else (True, s)")
    have acq: acquired using h a by (auto split: if_splits dest: spec[of _ s])
    obtain out s2 where f: "fetch U (quoteRequest symbol s1) s1 = (out, s2)"
      by (cases "fetch U (quoteRequest symbol s1) s1")
    from chartRefused_fetch[OF r, of symbol s1] f obtain resp where
      o: "out = Responded resp" "status resp = 401 \<or> status resp = 403" by auto
    have tok: "\<not> tokenMissing s \<Longrightarrow> \<not> tokenMissing s2"
      using a f by (auto simp: fetch_def tokenMissing_def Let_def split: prod.splits if_splits)
    from 1(2) a f o acq have "fq U symbol (snd (initCrumb U s2)) = Some y" by auto
    from 1(1)[OF this] h tok show False by blast
  qed
qed

text \<open>
  C8, as the code has it. Against an upstream whose chart endpoint answers 401 or 403 on
  every attempt the recursion of line 55 has no bound: \<open>fetchQuote\<close> never returns a
  record, and it never returns at all when every acquisition made with an empty Token
  Store succeeds, or when the store is non-empty at the call and no acquisition empties
  it. The one way out is the error of line 43, thrown when a re-acquisition has left the
  crumb or the cookie empty and the acquisition after it fails.
\<close>

theorem fetchQuote_refused_forever:
  assumes "chartRefused U"
  shows "(fetchQuote U symbol s = None \<or>
          (\<exists>s'. fetchQuote U symbol s = Some (Inl (Error ''Cannot acquire Yahoo Finance crumb''), s'))) \<and>
         ((\<forall>s0. tokenMissing s0 \<longrightarrow> fst (initCrumb U s0)) \<or>
          (\<not> tokenMissing s \<and> (\<forall>s0. \<not> tokenMissing s0 \<longrightarrow> \<not> tokenMissing (snd (initCrumb U s0))))
          \<longrightarrow> fetchQuote U symbol s = None)"
proof (cases "fetchQuote U symbol s")
  case None
  then show ?thesis by simp
next
  case (Some y)
  from refused_only_error[OF Some] refused_never_returns[OF Some] assms Some
  show ?thesis by blast
qed


lemma chartRefused_denied: "chartRefused denied"
  by (simp add: chartRefused_def denied_def respond_def)

lemma chartRefused_lockedOut: "chartRefused lockedOut"
  by (simp add: chartRefused_def lockedOut_def respond_def)

lemma initCrumb_denied: "fst (initCrumb denied s0)"
  by (simp add: initCrumb_def fetch_def denied_def respond_def ok_def Let_def)

theorem fetchQuote_refused_forever_witness:
  "chartRefused denied \<and> fetchQuote denied ''AAPL'' ready = None"
  using fetchQuote_refused_forever[OF chartRefused_denied, of "''AAPL''" ready]
    chartRefused_denied initCrumb_denied
  by blast

text \<open>
  C8 as stated fails: the chart endpoint answers 403 on every attempt, the consent
  endpoint sets no cookie and the crumb endpoint refuses; the re-acquisition empties
  \<open>cookieStr\<close>, the retry cannot acquire a token, and \<open>fetchQuote\<close> returns with the
  error of line 43 after a single retry.
\<close>

theorem fetchQuote_refused_forever_counterexample:
  "chartRefused lockedOut \<and>
   fetchQuote lockedOut ''AAPL'' ready =
     Some (Inl (Error ''Cannot acquire Yahoo Finance crumb''),
           \<lparr>crumb = Some ''c0'', cookieStr = Some [], cache = Map.empty, clock = 25,
             sent = [Chart ''AAPL'' ''1d'' ''1d'' (Some ''c0'') (Some ''A=1''),
                     Consent, GetCrumb [], Consent, GetCrumb []]\<rparr>)"
proof -
  have i: "initCrumb lockedOut \<lparr>crumb = cr, cookieStr = ck, cache = Map.empty, clock = t, sent = xs\<rparr> =
     (False, \<lparr>crumb = cr, cookieStr = Some [], cache = Map.empty, clock = t + 10,
             sent = xs @ [Consent, GetCrumb []]\<rparr>)" for cr ck t xs
    by (simp add: initCrumb_def fetch_def lockedOut_def respond_def cookieHeader_def ok_def Let_def)
  have 2: "fetchQuote lockedOut ''AAPL''
       \<lparr>crumb = Some ''c0'', cookieStr = Some [], cache = Map.empty, clock = 15,
         sent = [Chart ''AAPL'' ''1d'' ''1d'' (Some ''c0'') (Some ''A=1''), Consent, GetCrumb []]\<rparr> =
     Some (Inl (Error ''Cannot acquire Yahoo Finance crumb''),
           \<lparr>crumb = Some ''c0'', cookieStr = Some [], cache = Map.empty, clock = 25,
             sent = [Chart ''AAPL'' ''1d'' ''1d'' (Some ''c0'') (Some ''A=1''),
                     Consent, GetCrumb [], Consent, GetCrumb []]\<rparr>)"
    apply (subst fetchQuote.simps)
    apply (simp add: tokenMissing_def truthy_str_def i)
    done
  have 1: "fetchQuote lockedOut ''AAPL'' ready =
     fetchQuote lockedOut ''AAPL''
       \<lparr>crumb = Some ''c0'', cookieStr = Some [], cache = Map.empty, clock = 15,
         sent = [Chart ''AAPL'' ''1d'' ''1d'' (Some ''c0'') (Some ''A=1''), Consent, GetCrumb []]\<rparr>"
    apply (subst fetchQuote.simps)
    apply (simp add: tokenMissing_def truthy_str_def ready_def fetch_def lockedOut_def respond_def quoteRequest_def i)
    done
  show ?thesis unfolding 1 2 using chartRefused_lockedOut by simp
qed

section \<open>A task alone runs as the sequential fetcher\<close>










section \<open>The batch\<close>







































end
